theory Spec2Isabelle
  imports Complex_Main
begin

section \<open>JavaScript values reaching the middleware\<close>

text \<open>
  The options object, the exclusion setting and the route templates are untyped at run
  time (the TypeScript annotations are erased), so they are modelled as JavaScript
  values.  User code (a configured predicate, the \<open>test\<close> method of a pattern with its
  \<open>lastIndex\<close>) runs against an outside world \<open>'w\<close>, which it may read and change: this
  is how a predicate that answers differently from call to call is expressed.
\<close>

datatype error = TypeError string | Exception string

datatype jsnum = NaN | PosInf | NegInf | Fin rat

record 'w regexp =
  re_source :: string
  re_flags :: string
  re_test :: "string \<Rightarrow> 'w \<Rightarrow> bool \<times> 'w"

datatype 'w jsval =
    JUndefined
  | JNull
  | JBool bool
  | JNum jsnum
  | JStr string
  | JArray "'w jsval list"
  | JRegExp "'w regexp"
  | JFunction "string \<Rightarrow> 'w \<Rightarrow> (error + 'w jsval) \<times> 'w"
  | JObject "(string \<times> 'w jsval) list"

fun typeof :: "'w jsval \<Rightarrow> string" where
  "typeof JUndefined = ''undefined''"
| "typeof JNull = ''object''"
| "typeof (JBool _) = ''boolean''"
| "typeof (JNum _) = ''number''"
| "typeof (JStr _) = ''string''"
| "typeof (JArray _) = ''object''"
| "typeof (JRegExp _) = ''object''"
| "typeof (JFunction _) = ''function''"
| "typeof (JObject _) = ''object''"

text \<open>ToBoolean: what \<open>!v\<close>, \<open>v && ...\<close> and \<open>v || ...\<close> test.\<close>

fun truthy :: "'w jsval \<Rightarrow> bool" where
  "truthy JUndefined = False"
| "truthy JNull = False"
| "truthy (JBool b) = b"
| "truthy (JNum NaN) = False"
| "truthy (JNum (Fin q)) = (q \<noteq> 0)"
| "truthy (JNum _) = True"
| "truthy (JStr s) = (s \<noteq> [])"
| "truthy _ = True"

fun isArray :: "'w jsval \<Rightarrow> bool" where
  "isArray (JArray _) = True"
| "isArray _ = False"

fun instanceofRegExp :: "'w jsval \<Rightarrow> bool" where
  "instanceofRegExp (JRegExp _) = True"
| "instanceofRegExp _ = False"

text \<open>\<open>n < 1000\<close> on a number: every comparison with NaN is false.\<close>

fun num_less :: "jsnum \<Rightarrow> rat \<Rightarrow> bool" where
  "num_less NaN _ = False"
| "num_less PosInf _ = False"
| "num_less NegInf _ = True"
| "num_less (Fin q) r = (q < r)"

text \<open>\<open>v === s\<close> for a string \<open>s\<close>: strict equality holds for the same string only.\<close>

fun strict_eq_str :: "'w jsval \<Rightarrow> string \<Rightarrow> bool" where
  "strict_eq_str (JStr t) s = (t = s)"
| "strict_eq_str _ _ = False"

text \<open>\<open>Array.prototype.indexOf\<close>: the first index holding the string, or \<open>-1\<close>.\<close>

fun indexOf :: "'w jsval list \<Rightarrow> string \<Rightarrow> int" where
  "indexOf [] s = -1"
| "indexOf (v # vs) s =
     (if strict_eq_str v s then 0
      else (let i = indexOf vs s in if i = -1 then -1 else i + 1))"

text \<open>
  The own enumerable property \<open>k\<close> of a value, as \<open>Object.assign\<close> copies it.  Of an
  object these are its listed properties (each key listed once); the own enumerable
  keys of an array are its decimal indices, none of which is an option name, and a
  pattern has none.
\<close>

fun own_property :: "'w jsval \<Rightarrow> string \<Rightarrow> 'w jsval option" where
  "own_property (JObject ps) k = map_of ps k"
| "own_property _ k = None"

section \<open>Configuration\<close>

text \<open>
  \<open>IPreMiddlewareConfig\<close>, together with the \<open>maxPathsToCount\<close> entry that
  \<open>defaultConfig\<close> carries.  An absent option reads as \<open>undefined\<close>.
\<close>

record 'w config =
  route :: "'w jsval"
  exclude :: "'w jsval"
  promBlacklist :: "'w jsval"
  promDefaultDelay :: "'w jsval"
  maxPathsToCount :: "'w jsval"

definition defaultConfig :: "'w config" where
  "defaultConfig =
     \<lparr> route = JStr ''/metrics'',
       exclude = JUndefined,
       promBlacklist = JArray [],
       promDefaultDelay = JNum (Fin 1000),
       maxPathsToCount = JNum (Fin 100) \<rparr>"

text \<open>
  One option of \<open>assign({}, defaultConfig, userConfig || {})\<close>: the user's own property
  where there is one (also when its value is \<open>undefined\<close>), the default otherwise.
\<close>

definition assigned :: "'w jsval \<Rightarrow> string \<Rightarrow> 'w jsval \<Rightarrow> 'w jsval" where
  "assigned userConfig k dflt =
     (case own_property (if truthy userConfig then userConfig else JObject []) k of
        Some v \<Rightarrow> v
      | None \<Rightarrow> dflt)"

definition assign :: "'w config \<Rightarrow> 'w jsval \<Rightarrow> 'w config" where
  "assign dflt userConfig =
     \<lparr> route = assigned userConfig ''route'' (route dflt),
       exclude = assigned userConfig ''exclude'' (exclude dflt),
       promBlacklist = assigned userConfig ''promBlacklist'' (promBlacklist dflt),
       promDefaultDelay = assigned userConfig ''promDefaultDelay'' (promDefaultDelay dflt),
       maxPathsToCount = assigned userConfig ''maxPathsToCount'' (maxPathsToCount dflt) \<rparr>"

fun is_undefined :: "'w jsval \<Rightarrow> bool" where
  "is_undefined JUndefined = True"
| "is_undefined _ = False"

fun is_false :: "'w jsval \<Rightarrow> bool" where
  "is_false (JBool b) = (\<not> b)"
| "is_false _ = False"

text \<open>\<open>config.exclude = [config.exclude]\<close> when the option is a string.\<close>

fun normalize_exclude :: "'w jsval \<Rightarrow> 'w jsval" where
  "normalize_exclude (JStr s) = JArray [JStr s]"
| "normalize_exclude v = v"

text \<open>\<open>(typeof d !== 'number') || d < 1000\<close>\<close>

fun bad_delay :: "'w jsval \<Rightarrow> bool" where
  "bad_delay (JNum n) = num_less n 1000"
| "bad_delay _ = True"

definition checkConfig :: "'w jsval \<Rightarrow> error + 'w config" where
  "checkConfig userConfig =
     (if typeof userConfig \<noteq> ''object'' \<and> \<not> is_undefined userConfig then
        Inl (TypeError ''Invalid second argument for restify-prom-bundle.middleware()'')
      else
        let config = assign defaultConfig userConfig in
        if \<not> is_false (route config) \<and>
           (typeof (route config) \<noteq> ''string'' \<or> \<not> truthy (route config)) then
          Inl (TypeError ''`route` option for restify-prom-bundle.middleware() must be a non empty string or false'')
        else
          let config = config\<lparr>exclude := normalize_exclude (exclude config)\<rparr> in
          if truthy (exclude config) \<and>
             (\<not> isArray (exclude config) \<and>
              \<not> instanceofRegExp (exclude config) \<and>
              \<not> typeof (exclude config) = ''function'') then
            Inl (TypeError ''`exclude` option for restify-prom-bundle.middleware() must be string | string[] | RegExp | Function'')
          else if \<not> isArray (promBlacklist config) then
            Inl (TypeError ''`promBlacklist` option for restify-prom-bundle.middleware() must be an array'')
          else if bad_delay (promDefaultDelay config) then
            Inl (TypeError ''`promDefaultDelay` option for restify-prom-bundle.middleware() must be number >= 1000'')
          else Inr config)"

section \<open>The exclusion cache and shouldMeasure\<close>

text \<open>
  \<open>shouldMeasureExcludedCache\<close> is a plain object used as a dictionary: its own
  properties are the cached decisions.  Two keys are not ordinary:
  \<^item> \<open>cache.hasOwnProperty(path)\<close> looks the method up on the object itself first, so
    once a decision is stored under the key \<open>hasOwnProperty\<close> the call applies a
    boolean and raises a TypeError;
  \<^item> \<open>cache['__proto__'] = b\<close> runs the prototype setter, which ignores a boolean:
    no own property is created.
  The module state is this variable together with the outside world.  The variable is
  read only by request handlers, which exist only once \<open>preMiddleware\<close> has assigned
  it, so it always holds an object when it is read.
\<close>

type_synonym cache = "string \<rightharpoonup> bool"

record 'w state =
  shouldMeasureExcludedCache :: cache
  world :: 'w

definition cache_hasOwnProperty :: "cache \<Rightarrow> string \<Rightarrow> error + bool" where
  "cache_hasOwnProperty c path =
     (case c ''hasOwnProperty'' of
        Some b \<Rightarrow> Inl (TypeError ''shouldMeasureExcludedCache.hasOwnProperty is not a function'')
      | None \<Rightarrow> Inr (case c path of Some _ \<Rightarrow> True | None \<Rightarrow> False))"

definition cache_set :: "cache \<Rightarrow> string \<Rightarrow> bool \<Rightarrow> cache" where
  "cache_set c path b = (if path = ''__proto__'' then c else c(path \<mapsto> b))"

text \<open>
  The \<open>if\<close> / \<open>else if\<close> chain that computes \<open>isExcluded\<close> for a path with no cached
  decision.  Each test is run only when the type check before it succeeds; an exception
  of the predicate leaves the chain (and \<open>shouldMeasure\<close>) at once.
\<close>

fun compute_excluded :: "'w jsval \<Rightarrow> string \<Rightarrow> 'w \<Rightarrow> (error + bool) \<times> 'w" where
  "compute_excluded (JArray xs) path w = (Inr (indexOf xs path \<noteq> -1), w)"
| "compute_excluded (JRegExp r) path w =
     (case re_test r path w of (b, w') \<Rightarrow> (Inr b, w'))"
| "compute_excluded (JFunction f) path w =
     (case f path w of
        (Inl e, w') \<Rightarrow> (Inl e, w')
      | (Inr v, w') \<Rightarrow> (Inr (truthy v), w'))"
| "compute_excluded _ path w = (Inr False, w)"

definition shouldMeasure ::
  "string \<Rightarrow> 'w config \<Rightarrow> 'w state \<Rightarrow> (error + bool) \<times> 'w state" where
  "shouldMeasure path config st =
     (if truthy (exclude config) then
        (case cache_hasOwnProperty (shouldMeasureExcludedCache st) path of
           Inl e \<Rightarrow> (Inl e, st)
         | Inr True \<Rightarrow>
             (case shouldMeasureExcludedCache st path of
                Some isExcluded \<Rightarrow> (Inr (\<not> isExcluded), st)
              | None \<Rightarrow> (Inr True, st))
         | Inr False \<Rightarrow>
             (case compute_excluded (exclude config) path (world st) of
                (Inl e, w') \<Rightarrow> (Inl e, st\<lparr>world := w'\<rparr>)
              | (Inr isExcluded, w') \<Rightarrow>
                  (Inr (\<not> isExcluded),
                   \<lparr> shouldMeasureExcludedCache =
                       cache_set (shouldMeasureExcludedCache st) path isExcluded,
                     world = w' \<rparr>)))
      else (Inr True, st))"

section \<open>The path limiter\<close>

text \<open>
  Modelled from the spec: the class \<open>PathLimit\<close> of \<open>./PathLimit\<close>, which the middleware
  imports, constructs with \<open>config.maxPathsToCount\<close> and calls as
  \<open>pathLimiter.registerPath(path)\<close>; the file is not among the sources.  The spec names
  it PathCardinalityLimiter, constructed with \<open>maxDistinctPaths\<close>, an integer, and names
  the operation \<open>admit\<close>: a path already in the Admitted Path Set is admitted with no
  growth; a new path is inserted and admitted while the set has fewer than
  \<open>maxDistinctPaths\<close> elements; otherwise it is refused and not inserted.
\<close>

record PathLimit =
  maxDistinctPaths :: int
  admitted :: "string set"

definition new_PathLimit :: "int \<Rightarrow> PathLimit" where
  "new_PathLimit m = \<lparr> maxDistinctPaths = m, admitted = {} \<rparr>"

definition registerPath :: "string \<Rightarrow> PathLimit \<Rightarrow> bool \<times> PathLimit" where
  "registerPath path l =
     (if path \<in> admitted l then (True, l)
      else if int (card (admitted l)) < maxDistinctPaths l then
        (True, l\<lparr>admitted := insert path (admitted l)\<rparr>)
      else (False, l))"

text \<open>A sequence of \<open>admit\<close> calls on one limiter, with the answers in call order.\<close>

fun registerPaths :: "string list \<Rightarrow> PathLimit \<Rightarrow> bool list \<times> PathLimit" where
  "registerPaths [] l = ([], l)"
| "registerPaths (p # ps) l =
     (case registerPath p l of
        (b, l') \<Rightarrow> (case registerPaths ps l' of (bs, l'') \<Rightarrow> (b # bs, l'')))"

section \<open>Metrics\<close>

datatype instrument =
    Histogram string string "string list" "rat list"
  | Counter string string "string list"

text \<open>
  \<open>IBundleMetrics\<close> as the object it is at run time: a property that was never set
  reads as \<open>undefined\<close> (\<open>None\<close>), which is falsy.
\<close>

type_synonym metrics = "string \<rightharpoonup> instrument"

definition initMetrics :: "'w config \<Rightarrow> metrics" where
  "initMetrics config =
     (let labels = [''path'', ''status_code'', ''method''] in
      [ ''requestHistogram'' \<mapsto>
          Histogram ''http_request_duration_miliseconds''
            ''Response time in seconds for each request'' labels
            [3 / 1000, 3 / 100, 1 / 10, 3 / 10, 3 / 2, 10],
        ''requestCounter'' \<mapsto>
          Counter ''http_requests_total'' ''Total number of requests'' labels ])"

section \<open>Constructing the middleware\<close>

text \<open>
  The first argument of \<open>preMiddleware\<close>: something that is not an object, \<open>null\<close>
  (whose \<open>typeof\<close> is \<open>object\<close>, so that reading \<open>server.router\<close> raises), or an object
  that has or lacks \<open>router\<close> and \<open>pre\<close>.
\<close>

datatype server = NotAnObject | NullServer | Server (has_router: bool) (has_pre: bool)

text \<open>
  What the returned closure captures.  \<open>c_exposed\<close> is the scrape route installed with
  \<open>server.pre(exposeRoute(config.route))\<close>, when there is one.
\<close>

record 'w closure =
  c_config :: "'w config"
  c_pathLimiter :: PathLimit
  c_metrics :: metrics
  c_exposed :: "'w jsval option"

text \<open>
  \<open>preMiddleware\<close>.  The constructor \<open>new PathLimit(config.maxPathsToCount)\<close> receives
  an option that \<open>checkConfig\<close> does not validate; what it does with a value that is not
  a number is not in the sources, so the constructor is a parameter.  The calls into the
  metrics library (\<open>client.defaultMetrics\<close>, the two instrument constructors) and
  \<open>exposeRoute\<close> are taken to return.
\<close>

definition preMiddleware ::
  "('w jsval \<Rightarrow> PathLimit) \<Rightarrow> server \<Rightarrow> 'w jsval \<Rightarrow> 'w state
     \<Rightarrow> (error + 'w closure) \<times> 'w state" where
  "preMiddleware newPathLimit srv userConfig st =
     (let st = st\<lparr>shouldMeasureExcludedCache := Map.empty\<rparr> in
      case srv of
        NotAnObject \<Rightarrow>
          (Inl (TypeError ''restify-prom-bundle.middleware() must take a restify server instance as first argument''), st)
      | NullServer \<Rightarrow>
          (Inl (TypeError ''Cannot read property router of null''), st)
      | Server r p \<Rightarrow>
          if \<not> r \<or> \<not> p then
            (Inl (TypeError ''restify-prom-bundle.middleware() must take a restify server instance as first argument''), st)
          else
            (case checkConfig userConfig of
               Inl e \<Rightarrow> (Inl e, st)
             | Inr config \<Rightarrow>
                 (Inr \<lparr> c_config = config,
                        c_pathLimiter = newPathLimit (maxPathsToCount config),
                        c_metrics = initMetrics config,
                        c_exposed = (if truthy (route config) then Some (route config) else None) \<rparr>,
                  st)))"

section \<open>Handling a request\<close>

text \<open>
  What \<open>server.router.find\<close> hands to its callback: an error, or a route whose spec has
  a \<open>path\<close> and a \<open>url\<close>, each absent, a string or a pattern.
\<close>

datatype 'w template = TString string | TRegExp "'w regexp"

record 'w route_spec =
  spec_path :: "'w template option"
  spec_url :: "'w template option"

datatype 'w found = RouteFindError | Route "'w route_spec"

record 'w request =
  req_path :: string
  req_method :: string
  req_found :: "'w found"

fun template_truthy :: "'w template option \<Rightarrow> bool" where
  "template_truthy None = False"
| "template_truthy (Some (TString s)) = (s \<noteq> [])"
| "template_truthy (Some (TRegExp _)) = True"

text \<open>\<open>RegExp.prototype.toString\<close>: the source between slashes, then the flags.\<close>

definition regexp_toString :: "'w regexp \<Rightarrow> string" where
  "regexp_toString r = ''/'' @ re_source r @ ''/'' @ re_flags r"

text \<open>
  The resolved path.  \<open>route.spec.path || route.spec.url\<close> picks the url when the path is
  absent or the empty string; \<open>toString\<close> of \<open>undefined\<close> raises.
\<close>

definition resolved_path :: "'w request \<Rightarrow> error + string" where
  "resolved_path req =
     (let path = req_path req in
      case req_found req of
        RouteFindError \<Rightarrow> Inr path
      | Route spec \<Rightarrow>
          (let routePath =
                 (if template_truthy (spec_path spec) then spec_path spec else spec_url spec)
           in case routePath of
                Some (TRegExp r) \<Rightarrow> Inr (''RegExp('' @ regexp_toString r @ '')'')
              | Some (TString s) \<Rightarrow> Inr s
              | None \<Rightarrow> Inl (TypeError ''Cannot read property toString of undefined'')))"

text \<open>
  A callback registered with \<open>onFinished\<close>, with the values it captured: ending the
  histogram timer started with \<open>{path, method}\<close>, or incrementing the counter.  The
  handler below is the callback given to \<open>server.router.find\<close>; its diagnostics (the
  \<open>debug\<close> lines and the elapsed time) register nothing and are left out.
\<close>

datatype finish_callback = EndTimer string string | IncCounter string string

record outcome =
  registered :: "finish_callback list"
  limiter :: PathLimit
  next_called :: bool

fun routeFindError :: "'w found \<Rightarrow> bool" where
  "routeFindError RouteFindError = True"
| "routeFindError (Route _) = False"

definition middleware ::
  "'w closure \<Rightarrow> 'w request \<Rightarrow> 'w state \<Rightarrow> (error + outcome) \<times> 'w state" where
  "middleware inst req st =
     (case resolved_path req of
        Inl e \<Rightarrow> (Inl e, st)
      | Inr path \<Rightarrow>
          (case shouldMeasure path (c_config inst) st of
             (Inl e, st') \<Rightarrow> (Inl e, st')
           | (Inr False, st') \<Rightarrow>
               (Inr \<lparr> registered = [], limiter = c_pathLimiter inst, next_called = True \<rparr>, st')
           | (Inr True, st') \<Rightarrow>
               (let timers =
                      (if c_metrics inst ''requestHistogram'' \<noteq> None
                          \<and> \<not> routeFindError (req_found req)
                       then [EndTimer path (req_method req)] else []);
                    (counters, l) =
                      (if c_metrics inst ''requestCounte'' \<noteq> None then
                         (case registerPath path (c_pathLimiter inst) of
                            (True, l') \<Rightarrow> ([IncCounter path (req_method req)], l')
                          | (False, l') \<Rightarrow> ([], l'))
                       else ([], c_pathLimiter inst))
                in (Inr \<lparr> registered = timers @ counters, limiter = l, next_called = True \<rparr>,
                    st'))))"

section \<open>When the response has finished\<close>

text \<open>
  The response handed to the callbacks may be absent; its \<open>statusCode\<close> is a number or
  absent.  \<open>(res2 && res2.statusCode) ? res2.statusCode : 0\<close>.
\<close>

record response =
  statusCode :: "nat option"

definition status_code_label :: "response option \<Rightarrow> nat" where
  "status_code_label res2 =
     (case res2 of
        None \<Rightarrow> 0
      | Some r \<Rightarrow>
          (case statusCode r of
             None \<Rightarrow> 0
           | Some n \<Rightarrow> if n \<noteq> 0 then n else 0))"

record labels =
  l_path :: string
  l_method :: string
  l_status_code :: nat

datatype observation = Observe labels | Inc labels

text \<open>
  Running a callback: the histogram observation carries the labels the timer was
  started with and the status code; the counter is incremented with all three.
\<close>

fun finish :: "finish_callback \<Rightarrow> response option \<Rightarrow> error + observation" where
  "finish (EndTimer path method) res2 =
     Inr (Observe \<lparr> l_path = path, l_method = method,
                    l_status_code = status_code_label res2 \<rparr>)"
| "finish (IncCounter path method) res2 =
     Inr (Inc \<lparr> l_path = path, l_method = method,
                l_status_code = status_code_label res2 \<rparr>)"

section \<open>The words of the specification\<close>

text \<open>
  Exclusion as the specification words it, for a configured setting, a path and the
  world in which the pattern or the predicate would run: (a) the path is a member of
  the literal list, (b) the pattern, tested against the path, matches, (c) the predicate,
  applied to the path, returns a truthy value.
\<close>

fun spec_excluded :: "'w jsval \<Rightarrow> string \<Rightarrow> 'w \<Rightarrow> bool" where
  "spec_excluded (JArray xs) path w = (JStr path \<in> set xs)"
| "spec_excluded (JRegExp r) path w = fst (re_test r path w)"
| "spec_excluded (JFunction f) path w =
     (case fst (f path w) of Inr v \<Rightarrow> truthy v | Inl e \<Rightarrow> False)"
| "spec_excluded _ path w = False"

text \<open>The configured predicate, applied to the path in this world, raises.\<close>

fun predicate_raises :: "'w jsval \<Rightarrow> string \<Rightarrow> 'w \<Rightarrow> bool" where
  "predicate_raises (JFunction f) path w =
     (case fst (f path w) of Inl e \<Rightarrow> True | Inr v \<Rightarrow> False)"
| "predicate_raises _ path w = False"

text \<open>
  Calls of \<open>shouldMeasure\<close> made one after the other on the module state, by any
  closures (each call with its path and the configuration of the closure that makes
  it); the answers are dropped, the state is kept.
\<close>

fun shouldMeasure_calls :: "(string \<times> 'w config) list \<Rightarrow> 'w state \<Rightarrow> 'w state" where
  "shouldMeasure_calls [] st = st"
| "shouldMeasure_calls ((path, config) # cs) st =
     shouldMeasure_calls cs (snd (shouldMeasure path config st))"

text \<open>
  The validation table of the specification, on the options after the defaults are
  filled in: \<open>route\<close> a non-empty string or exactly \<open>false\<close>; \<open>exclude\<close> a string, an
  array, a pattern or a function; \<open>promBlacklist\<close> an array; \<open>promDefaultDelay\<close> a
  number that is at least 1000.
\<close>

fun route_valid :: "'w jsval \<Rightarrow> bool" where
  "route_valid (JBool b) = (\<not> b)"
| "route_valid (JStr s) = (s \<noteq> [])"
| "route_valid _ = False"

fun exclude_shape :: "'w jsval \<Rightarrow> bool" where
  "exclude_shape (JStr _) = True"
| "exclude_shape (JArray _) = True"
| "exclude_shape (JRegExp _) = True"
| "exclude_shape (JFunction _) = True"
| "exclude_shape _ = False"

fun delay_valid :: "'w jsval \<Rightarrow> bool" where
  "delay_valid (JNum (Fin q)) = (1000 \<le> q)"
| "delay_valid (JNum PosInf) = True"
| "delay_valid _ = False"

fun is_NaN :: "'w jsval \<Rightarrow> bool" where
  "is_NaN (JNum NaN) = True"
| "is_NaN _ = False"

text \<open>The template \<open>route.spec.path || route.spec.url\<close> of a resolved route.\<close>

definition route_template :: "'w route_spec \<Rightarrow> 'w template option" where
  "route_template spec =
     (if template_truthy (spec_path spec) then spec_path spec else spec_url spec)"

section \<open>Example values\<close>

text \<open>A predicate that raises, and one that answers true and false alternately.\<close>

definition raising :: "string \<Rightarrow> unit \<Rightarrow> (error + unit jsval) \<times> unit" where
  "raising path w = (Inl (Exception ''boom''), w)"

definition alternating :: "string \<Rightarrow> nat \<Rightarrow> (error + nat jsval) \<times> nat" where
  "alternating path w = (Inr (JBool (even w)), Suc w)"

definition GET_does_not_exist :: "unit request" where
  "GET_does_not_exist =
     \<lparr> req_path = ''/does-not-exist'', req_method = ''GET'', req_found = RouteFindError \<rparr>"

text \<open>The closure that \<open>preMiddleware\<close> returns for the default configuration.\<close>

definition default_closure :: "unit closure" where
  "default_closure =
     \<lparr> c_config = defaultConfig, c_pathLimiter = new_PathLimit 100,
       c_metrics = initMetrics (defaultConfig :: unit config), c_exposed = Some (JStr ''/metrics'') \<rparr>"

definition fresh :: "unit state" where
  "fresh = \<lparr> shouldMeasureExcludedCache = Map.empty, world = () \<rparr>"

text \<open>Three configurations: one literal excluded path, and the two predicates.\<close>

definition health_config :: "unit config" where
  "health_config = defaultConfig\<lparr>exclude := JArray [JStr ''/health'']\<rparr>"

definition raising_config :: "unit config" where
  "raising_config = defaultConfig\<lparr>exclude := JFunction raising\<rparr>"

definition alternating_config :: "nat config" where
  "alternating_config = defaultConfig\<lparr>exclude := JFunction alternating\<rparr>"

text \<open>
  The closure constructed from the options \<open>{exclude: raising}\<close>, and two option objects:
  one valid, one with a delay below 1000.
\<close>

definition raising_closure :: "unit closure" where
  "raising_closure =
     \<lparr> c_config = raising_config, c_pathLimiter = new_PathLimit 100,
       c_metrics = initMetrics raising_config, c_exposed = Some (JStr ''/metrics'') \<rparr>"

definition valid_options :: "unit jsval" where
  "valid_options =
     JObject [(''route'', JBool False), (''exclude'', JStr ''/health''),
              (''promDefaultDelay'', JNum (Fin 5000))]"

definition short_delay_options :: "unit jsval" where
  "short_delay_options = JObject [(''promDefaultDelay'', JNum (Fin 999))]"

definition GET_users_7 :: "unit request" where
  "GET_users_7 =
     \<lparr> req_path = ''/users/7'', req_method = ''GET'',
       req_found = Route \<lparr> spec_path = Some (TString ''/users/:id''), spec_url = None \<rparr> \<rparr>"

text \<open>The pattern \<open>/[0-9]+/i\<close> as a route template.\<close>

definition digits :: "unit regexp" where
  "digits =
     \<lparr> re_source = ''[0-9]+'', re_flags = ''i'',
       re_test = (\<lambda>s w. (list_ex (\<lambda>c. List.member ''0123456789'' c) s, w)) \<rparr>"

definition GET_42 :: "unit request" where
  "GET_42 =
     \<lparr> req_path = ''/42'', req_method = ''GET'',
       req_found = Route \<lparr> spec_path = Some (TRegExp digits), spec_url = None \<rparr> \<rparr>"

text \<open>
  A closure that excludes \<open>/health\<close>, a request that resolves to the route \<open>/health\<close>,
  and a module state whose cache holds, for \<open>/health\<close>, the decision of a closure that
  does not exclude it.
\<close>

definition health_closure :: "unit closure" where
  "health_closure =
     \<lparr> c_config = health_config, c_pathLimiter = new_PathLimit 100,
       c_metrics = initMetrics health_config, c_exposed = Some (JStr ''/metrics'') \<rparr>"

definition GET_health :: "unit request" where
  "GET_health =
     \<lparr> req_path = ''/health'', req_method = ''GET'',
       req_found = Route \<lparr> spec_path = Some (TString ''/health''), spec_url = None \<rparr> \<rparr>"

definition stale :: "unit state" where
  "stale = \<lparr> shouldMeasureExcludedCache = [''/health'' \<mapsto> False], world = () \<rparr>"

text \<open>Such a closure: it excludes \<open>/admin\<close> only.\<close>

definition admin_closure :: "unit closure" where
  "admin_closure =
     \<lparr> c_config = defaultConfig\<lparr>exclude := JArray [JStr ''/admin'']\<rparr>,
       c_pathLimiter = new_PathLimit 100,
       c_metrics = initMetrics (defaultConfig :: unit config),
       c_exposed = Some (JStr ''/metrics'') \<rparr>"

section \<open>The path limiter keeps its bound\<close>

lemma registerPath_inv:
  assumes "registerPath p l = (b, l')" "finite (admitted l)"
    "int (card (admitted l)) \<le> maxDistinctPaths l"
  shows "finite (admitted l') \<and> int (card (admitted l')) \<le> maxDistinctPaths l' \<and>
         maxDistinctPaths l' = maxDistinctPaths l \<and> admitted l \<subseteq> admitted l' \<and>
         (b \<longleftrightarrow> p \<in> admitted l')"
  using assms by (auto simp: registerPath_def split: if_splits)

lemma registerPaths_inv:
  "registerPaths ps l = (bs, l') \<Longrightarrow> finite (admitted l) \<Longrightarrow>
   int (card (admitted l)) \<le> maxDistinctPaths l \<Longrightarrow>
   finite (admitted l') \<and> int (card (admitted l')) \<le> maxDistinctPaths l' \<and>
   maxDistinctPaths l' = maxDistinctPaths l \<and> admitted l \<subseteq> admitted l'"
proof (induction ps arbitrary: l bs l')
  case Nil
  then show ?case by simp
next
  case (Cons p ps)
  obtain b l1 where s1: "registerPath p l = (b, l1)" by (cases "registerPath p l")
  obtain bs1 l2 where s2: "registerPaths ps l1 = (bs1, l2)" by (cases "registerPaths ps l1")
  from Cons.prems(1) s1 s2 have eq: "l' = l2" by simp
  from registerPath_inv[OF s1 Cons.prems(2,3)]
  have i1: "finite (admitted l1)" "int (card (admitted l1)) \<le> maxDistinctPaths l1"
    "maxDistinctPaths l1 = maxDistinctPaths l" "admitted l \<subseteq> admitted l1" by auto
  from Cons.IH[OF s2 i1(1,2)] i1 eq show ?case by auto
qed

text \<open>
  C3.  Start from a limiter constructed with a capacity \<open>m \<ge> 0\<close> and make any sequence
  \<open>ps\<close> of admit calls, reaching the limiter \<open>l\<close>.  Then the admitted set is finite and
  has at most \<open>m\<close> elements.  In that state a call for a path already in the set
  returns true and leaves the limiter as it is; a call for a new path below capacity
  inserts it and returns true; a call for a new path at capacity returns false and
  inserts nothing.  After any further sequence \<open>qs\<close> of calls every path admitted in
  \<open>l\<close> is still admitted, and the bound still holds.
\<close>

theorem limiter_bounded_monotone:
  assumes "0 \<le> m" and "registerPaths ps (new_PathLimit m) = (bs, l)"
  shows "finite (admitted l) \<and> int (card (admitted l)) \<le> m \<and>
         (p \<in> admitted l \<longrightarrow> registerPath p l = (True, l)) \<and>
         (p \<notin> admitted l \<and> int (card (admitted l)) < m \<longrightarrow>
            registerPath p l = (True, l\<lparr>admitted := insert p (admitted l)\<rparr>)) \<and>
         (p \<notin> admitted l \<and> \<not> int (card (admitted l)) < m \<longrightarrow>
            registerPath p l = (False, l)) \<and>
         admitted l \<subseteq> admitted (snd (registerPaths qs l)) \<and>
         int (card (admitted (snd (registerPaths qs l)))) \<le> m"
proof -
  have f0: "finite (admitted (new_PathLimit m))"
    and c0: "int (card (admitted (new_PathLimit m))) \<le> maxDistinctPaths (new_PathLimit m)"
    using assms(1) by (simp_all add: new_PathLimit_def)
  from registerPaths_inv[OF assms(2) f0 c0]
  have i: "finite (admitted l)" "int (card (admitted l)) \<le> maxDistinctPaths l"
    "maxDistinctPaths l = m" by (auto simp: new_PathLimit_def)
  obtain cs l2 where s2: "registerPaths qs l = (cs, l2)" by (cases "registerPaths qs l")
  from registerPaths_inv[OF s2 i(1,2)] i(3)
  have j: "admitted l \<subseteq> admitted l2" "int (card (admitted l2)) \<le> m" by auto
  show ?thesis using i j s2 by (simp add: registerPath_def)
qed

text \<open>
  The scenario of the spec: capacity 2 and the calls \<open>/a\<close>, \<open>/b\<close>, \<open>/c\<close>, \<open>/a\<close> are
  answered true, true, false, true.
\<close>

theorem limiter_bounded_monotone_witness:
  "(0::int) \<le> 2 \<and>
   registerPaths [''/a'', ''/b'', ''/c'', ''/a''] (new_PathLimit 2)
     = ([True, True, False, True], \<lparr> maxDistinctPaths = 2, admitted = {''/a'', ''/b''} \<rparr>) \<and>
   int (card (admitted \<lparr> maxDistinctPaths = 2, admitted = {''/a'', ''/b''} \<rparr>)) \<le> 2 \<and>
   registerPath ''/c'' \<lparr> maxDistinctPaths = 2, admitted = {''/a'', ''/b''} \<rparr>
     = (False, \<lparr> maxDistinctPaths = 2, admitted = {''/a'', ''/b''} \<rparr>)"
proof -
  have h: "(0::int) \<le> 2" by simp
  have r: "registerPaths [''/a'', ''/b'', ''/c'', ''/a''] (new_PathLimit 2)
     = ([True, True, False, True], \<lparr> maxDistinctPaths = 2, admitted = {''/a'', ''/b''} \<rparr>)"
    by (simp add: registerPath_def new_PathLimit_def insert_commute)
  from limiter_bounded_monotone[OF h r, of "''/c''" "[]"] h r show ?thesis by simp
qed

section \<open>Construction resets the shared cache\<close>

lemma preMiddleware_snd:
  "snd (preMiddleware newPathLimit srv userConfig st) =
     \<lparr> shouldMeasureExcludedCache = Map.empty, world = world st \<rparr>"
  by (simp add: preMiddleware_def Let_def split: server.splits sum.splits)

text \<open>
  C10.  The decision cache is part of the module state, not of a closure, and every call
  of \<open>preMiddleware\<close>, whatever its arguments and whether it returns a closure or
  raises, leaves that state with an empty cache (the world is untouched).  So a closure
  constructed earlier handles its next request exactly as on an empty cache: every
  decision cached before the construction is gone.
\<close>

theorem preMiddleware_empties_cache:
  "shouldMeasureExcludedCache (snd (preMiddleware newPathLimit srv userConfig st)) = Map.empty \<and>
   world (snd (preMiddleware newPathLimit srv userConfig st)) = world st \<and>
   middleware older req (snd (preMiddleware newPathLimit srv userConfig st)) =
     middleware older req \<lparr> shouldMeasureExcludedCache = Map.empty, world = world st \<rparr>"
  by (simp add: preMiddleware_snd)

theorem preMiddleware_empties_cache_witness:
  "shouldMeasureExcludedCache
     (snd (preMiddleware (\<lambda>v. new_PathLimit 100) (Server True True) JUndefined
        \<lparr> shouldMeasureExcludedCache = [''/health'' \<mapsto> True], world = () \<rparr>)) ''/health'' = None"
  using preMiddleware_empties_cache
    [of "\<lambda>v. new_PathLimit 100" "Server True True" JUndefined
        "\<lparr> shouldMeasureExcludedCache = [''/health'' \<mapsto> True], world = () \<rparr>"]
  by simp

section \<open>The status code label\<close>

text \<open>
  C7.  Run at response finish, each of the two callbacks returns an observation and
  never an error, and the \<open>status_code\<close> label of the observation is the status code of
  the response when the response is present and has one, and 0 when the response or its
  status code is absent.
\<close>

theorem finish_status_code:
  "finish (EndTimer path method) res2 =
     Inr (Observe \<lparr> l_path = path, l_method = method,
            l_status_code = (case res2 of None \<Rightarrow> 0
               | Some r \<Rightarrow> (case statusCode r of None \<Rightarrow> 0 | Some n \<Rightarrow> n)) \<rparr>) \<and>
   finish (IncCounter path method) res2 =
     Inr (Inc \<lparr> l_path = path, l_method = method,
            l_status_code = (case res2 of None \<Rightarrow> 0
               | Some r \<Rightarrow> (case statusCode r of None \<Rightarrow> 0 | Some n \<Rightarrow> n)) \<rparr>)"
  by (simp add: status_code_label_def split: option.splits)

theorem finish_status_code_witness:
  "finish (EndTimer ''/users/:id'' ''GET'') (Some \<lparr> statusCode = Some 200 \<rparr>) =
     Inr (Observe \<lparr> l_path = ''/users/:id'', l_method = ''GET'', l_status_code = 200 \<rparr>) \<and>
   finish (IncCounter ''/users/:id'' ''GET'') (Some \<lparr> statusCode = None \<rparr>) =
     Inr (Inc \<lparr> l_path = ''/users/:id'', l_method = ''GET'', l_status_code = 0 \<rparr>)"
  using finish_status_code [of "''/users/:id''" "''GET''" "Some \<lparr> statusCode = Some 200 \<rparr>"]
    finish_status_code [of "''/users/:id''" "''GET''" "Some \<lparr> statusCode = None \<rparr>"]
  by simp

section \<open>What a request registers\<close>

lemma shouldMeasure_no_exclude:
  "\<not> truthy (exclude cfg) \<Longrightarrow> shouldMeasure p cfg st = (Inr True, st)"
  by (simp add: shouldMeasure_def)

lemma initMetrics_requestCounte: "initMetrics cfg ''requestCounte'' = None"
  by (simp add: initMetrics_def Let_def)

lemma initMetrics_requestHistogram: "initMetrics cfg ''requestHistogram'' \<noteq> None"
  by (simp add: initMetrics_def Let_def)

lemma middleware_GET_does_not_exist:
  "middleware default_closure GET_does_not_exist fresh =
     (Inr \<lparr> registered = [], limiter = new_PathLimit 100, next_called = True \<rparr>, fresh)"
  by (simp add: middleware_def default_closure_def GET_does_not_exist_def resolved_path_def
      shouldMeasure_no_exclude defaultConfig_def initMetrics_requestCounte)

lemma middleware_GET_users_7:
  "middleware default_closure GET_users_7 fresh =
     (Inr \<lparr> registered = [EndTimer ''/users/:id'' ''GET''], limiter = new_PathLimit 100,
            next_called = True \<rparr>, fresh)"
  by (simp add: middleware_def default_closure_def GET_users_7_def resolved_path_def
      shouldMeasure_no_exclude defaultConfig_def initMetrics_requestCounte
      initMetrics_requestHistogram)

text \<open>
  C1.  The handler tests \<open>metrics.requestCounte\<close>, a property that \<open>initMetrics\<close> never
  sets (it sets \<open>requestCounter\<close>), so the test fails before the limiter is asked: for
  every request that the handler completes, no counter callback is among the registered
  callbacks, and the limiter is as it was.
\<close>

theorem counter_never_registered:
  assumes "c_metrics inst = initMetrics (c_config inst)"
    and "middleware inst req st = (Inr out, st')"
  shows "IncCounter p m \<notin> set (registered out) \<and> limiter out = c_pathLimiter inst"
  using assms
  by (auto simp: middleware_def initMetrics_requestCounte Let_def
      split: sum.splits prod.splits bool.splits if_splits)

text \<open>
  The unmatched request \<open>GET /does-not-exist\<close> under the default configuration: the
  limiter would admit the path, and nothing is registered.
\<close>

theorem counter_never_registered_witness:
  "c_metrics default_closure = initMetrics (c_config default_closure) \<and>
   middleware default_closure GET_does_not_exist fresh =
     (Inr \<lparr> registered = [], limiter = new_PathLimit 100, next_called = True \<rparr>, fresh) \<and>
   fst (registerPath ''/does-not-exist'' (c_pathLimiter default_closure)) \<and>
   IncCounter ''/does-not-exist'' ''GET''
     \<notin> set (registered \<lparr> registered = [], limiter = new_PathLimit 100, next_called = True \<rparr>)"
proof -
  have m: "c_metrics default_closure = initMetrics (c_config default_closure)"
    by (simp add: default_closure_def)
  have a: "fst (registerPath ''/does-not-exist'' (c_pathLimiter default_closure))"
    by (simp add: default_closure_def registerPath_def new_PathLimit_def)
  from counter_never_registered
         [OF m middleware_GET_does_not_exist, of "''/does-not-exist''" "''GET''"]
    m a middleware_GET_does_not_exist
  show ?thesis by simp
qed

text \<open>
  The timer callback follows the answer of \<open>shouldMeasure\<close> and the outcome of route
  resolution.
\<close>

lemma timer_iff_shouldMeasure:
  assumes "c_metrics inst = initMetrics (c_config inst)"
  shows "(\<exists>out st'. middleware inst req st = (Inr out, st') \<and>
            EndTimer p m \<in> set (registered out))
         \<longleftrightarrow> (\<not> routeFindError (req_found req) \<and> resolved_path req = Inr p \<and>
              fst (shouldMeasure p (c_config inst) st) = Inr True \<and> m = req_method req)"
  using assms
  by (auto simp: middleware_def initMetrics_requestCounte initMetrics_requestHistogram Let_def
      split: sum.splits prod.splits bool.splits if_splits)

section \<open>The resolved path\<close>

text \<open>
  C5, as it holds of the code.  The resolved path is a function of the request.  When route resolution
  failed it is the raw request path.  When it succeeded and the template chosen by
  \<open>route.spec.path || route.spec.url\<close> is a string, it is that string; when the
  template is a pattern, it is \<open>RegExp(\<close> followed by the string form of the pattern,
  that is a slash, the source, a slash and the flags, and \<open>)\<close>.
\<close>

theorem resolved_path_cases:
  "(req_found req = RouteFindError \<longrightarrow> resolved_path req = Inr (req_path req)) \<and>
   (\<forall>spec s. req_found req = Route spec \<and> route_template spec = Some (TString s) \<longrightarrow>
      resolved_path req = Inr s) \<and>
   (\<forall>spec r. req_found req = Route spec \<and> route_template spec = Some (TRegExp r) \<longrightarrow>
      resolved_path req = Inr (''RegExp(/'' @ re_source r @ ''/'' @ re_flags r @ '')''))"
  by (simp add: resolved_path_def route_template_def regexp_toString_def Let_def)

theorem resolved_path_cases_witness:
  "resolved_path GET_does_not_exist = Inr ''/does-not-exist'' \<and>
   resolved_path GET_users_7 = Inr ''/users/:id'' \<and>
   resolved_path GET_42 = Inr ''RegExp(/[0-9]+/i)''"
  using resolved_path_cases [of GET_does_not_exist] resolved_path_cases [of GET_users_7]
    resolved_path_cases [of GET_42]
  by (simp add: GET_does_not_exist_def GET_users_7_def GET_42_def route_template_def digits_def)

text \<open>
  For the template \<open>/[0-9]+/i\<close> the resolved path is \<open>RegExp(/[0-9]+/i)\<close>, not
  \<open>RegExp(\<close> followed by the source \<open>[0-9]+\<close> and \<open>)\<close>.
\<close>

theorem resolved_path_pattern_counterexample:
  "req_found GET_42 = Route \<lparr> spec_path = Some (TRegExp digits), spec_url = None \<rparr> \<and>
   resolved_path GET_42 \<noteq> Inr (''RegExp('' @ re_source digits @ '')'')"
  by (simp add: GET_42_def resolved_path_def digits_def regexp_toString_def)

section \<open>The exclusion decision\<close>

lemma strict_eq_str_iff: "strict_eq_str v s \<longleftrightarrow> v = JStr s"
  by (cases v) auto

lemma indexOf_ge: "-1 \<le> indexOf xs s"
  by (induction xs) (auto simp: Let_def)

lemma indexOf_iff: "indexOf xs s \<noteq> -1 \<longleftrightarrow> JStr s \<in> set xs"
proof (induction xs)
  case Nil
  then show ?case by simp
next
  case (Cons v vs)
  have "-1 \<le> indexOf vs s" by (rule indexOf_ge)
  with Cons show ?case by (auto simp: Let_def strict_eq_str_iff)
qed

lemma compute_excluded_spec:
  "\<not> predicate_raises ex p w \<Longrightarrow> fst (compute_excluded ex p w) = Inr (spec_excluded ex p w)"
  by (cases ex) (auto simp: indexOf_iff split: prod.splits sum.splits)

lemma compute_excluded_raises:
  "fst (f p w) = Inl e \<Longrightarrow> compute_excluded (JFunction f) p w = (Inl e, snd (f p w))"
  by (auto split: prod.splits sum.splits)

lemma spec_excluded_truthy: "spec_excluded ex p w \<Longrightarrow> truthy ex"
  by (cases ex) auto


lemma shouldMeasure_first:
  assumes "truthy (exclude cfg)"
    and "shouldMeasureExcludedCache st ''hasOwnProperty'' = None"
    and "shouldMeasureExcludedCache st p = None"
  shows "shouldMeasure p cfg st =
     (case compute_excluded (exclude cfg) p (world st) of
        (Inl e, w') \<Rightarrow> (Inl e, st\<lparr>world := w'\<rparr>)
      | (Inr isExcluded, w') \<Rightarrow>
          (Inr (\<not> isExcluded),
           \<lparr> shouldMeasureExcludedCache =
               cache_set (shouldMeasureExcludedCache st) p isExcluded,
             world = w' \<rparr>))"
  using assms by (simp add: shouldMeasure_def cache_hasOwnProperty_def)

lemma shouldMeasure_cached:
  assumes "truthy (exclude cfg)"
    and "shouldMeasureExcludedCache st ''hasOwnProperty'' = None"
    and "shouldMeasureExcludedCache st p = Some x"
  shows "shouldMeasure p cfg st = (Inr (\<not> x), st)"
  using assms by (simp add: shouldMeasure_def cache_hasOwnProperty_def)

text \<open>
  The two keys that are not ordinary.  Once a decision is stored under
  \<open>hasOwnProperty\<close>, every later call with an exclusion setting raises a TypeError;
  under \<open>__proto__\<close> nothing is ever stored.
\<close>

lemma shouldMeasure_poisoned:
  assumes "truthy (exclude cfg)"
    and "shouldMeasureExcludedCache st ''hasOwnProperty'' = Some x"
  shows "shouldMeasure p cfg st =
     (Inl (TypeError ''shouldMeasureExcludedCache.hasOwnProperty is not a function''), st)"
  using assms by (simp add: shouldMeasure_def cache_hasOwnProperty_def)

lemma shouldMeasure_hasOwnProperty_twice:
  "shouldMeasure ''hasOwnProperty'' health_config fresh =
     (Inr True, \<lparr> shouldMeasureExcludedCache = [''hasOwnProperty'' \<mapsto> False], world = () \<rparr>) \<and>
   fst (shouldMeasure ''hasOwnProperty'' health_config
          \<lparr> shouldMeasureExcludedCache = [''hasOwnProperty'' \<mapsto> False], world = () \<rparr>)
     = Inl (TypeError ''shouldMeasureExcludedCache.hasOwnProperty is not a function'')"
  by (simp add: shouldMeasure_def cache_hasOwnProperty_def cache_set_def health_config_def
      fresh_def)

lemma shouldMeasure_proto_not_stored:
  "shouldMeasure ''__proto__'' health_config fresh = (Inr True, fresh)"
  by (simp add: shouldMeasure_def cache_hasOwnProperty_def cache_set_def health_config_def
      fresh_def)

lemma shouldMeasure_returns:
  assumes "shouldMeasureExcludedCache st ''hasOwnProperty'' = None"
    and "shouldMeasureExcludedCache st p \<noteq> None \<or> \<not> predicate_raises (exclude cfg) p (world st)"
  shows "\<exists>b. fst (shouldMeasure p cfg st) = Inr b"
proof (cases "truthy (exclude cfg)")
  case False
  then show ?thesis by (auto simp: shouldMeasure_no_exclude)
next
  case True
  show ?thesis
  proof (cases "shouldMeasureExcludedCache st p")
    case (Some x)
    from shouldMeasure_cached[OF True assms(1) Some] show ?thesis by simp
  next
    case None
    with assms(2) have n: "\<not> predicate_raises (exclude cfg) p (world st)" by simp
    from shouldMeasure_first[OF True assms(1) None] compute_excluded_spec[OF n]
    show ?thesis
      by (cases "compute_excluded (exclude cfg) p (world st)") auto
  qed
qed

text \<open>
  C2, as it holds of the code.  Take a path with no cached decision and a cache with no
  entry under the key \<open>hasOwnProperty\<close>.  Then \<open>shouldMeasure\<close> returns false exactly
  when the path is excluded: it is a member of the literal list, or the pattern tested
  against it matches, or the predicate returns a truthy value for it (the three
  settings exclude one another, so their order cannot matter).  When the path is not
  excluded it returns true, provided the configured predicate (if the setting is one)
  does not raise for the path.  With no exclusion setting it returns true and changes
  nothing.  With a setting whose evaluation does not raise, the decision is stored under
  the path (unless the path is \<open>__proto__\<close>).
\<close>

theorem shouldMeasure_first_encounter:
  assumes "shouldMeasureExcludedCache st ''hasOwnProperty'' = None"
    and "shouldMeasureExcludedCache st p = None"
  shows "(fst (shouldMeasure p cfg st) = Inr False
            \<longleftrightarrow> spec_excluded (exclude cfg) p (world st)) \<and>
         (\<not> predicate_raises (exclude cfg) p (world st) \<longrightarrow>
            fst (shouldMeasure p cfg st) = Inr (\<not> spec_excluded (exclude cfg) p (world st))) \<and>
         (\<not> truthy (exclude cfg) \<longrightarrow> shouldMeasure p cfg st = (Inr True, st)) \<and>
         (\<not> predicate_raises (exclude cfg) p (world st) \<and> truthy (exclude cfg) \<and>
          p \<noteq> ''__proto__'' \<longrightarrow>
            shouldMeasureExcludedCache (snd (shouldMeasure p cfg st)) p
              = Some (spec_excluded (exclude cfg) p (world st)))"
proof (cases "truthy (exclude cfg)")
  case False
  with spec_excluded_truthy[of "exclude cfg" p "world st"] show ?thesis
    by (auto simp: shouldMeasure_no_exclude)
next
  case True
  note first = shouldMeasure_first[OF True assms]
  show ?thesis
  proof (cases "predicate_raises (exclude cfg) p (world st)")
    case False
    obtain r w' where c: "compute_excluded (exclude cfg) p (world st) = (r, w')"
      by (cases "compute_excluded (exclude cfg) p (world st)")
    with compute_excluded_spec[OF False]
    have r: "r = Inr (spec_excluded (exclude cfg) p (world st))" by simp
    show ?thesis using True False by (simp add: first c r cache_set_def)
  next
    case raises: True
    then obtain f where f: "exclude cfg = JFunction f" by (cases "exclude cfg") auto
    with raises obtain e where e: "fst (f p (world st)) = Inl e"
      by (cases "fst (f p (world st))") auto
    from e have n: "\<not> spec_excluded (JFunction f) p (world st)" by simp
    from compute_excluded_raises[of f p "world st" e] e f
    have "fst (shouldMeasure p cfg st) = Inl e" by (simp add: first)
    with n f raises True show ?thesis by simp
  qed
qed

text \<open>
  The scenario of the spec, \<open>exclude = ["/health"]\<close>: \<open>/health\<close> is not measured,
  \<open>/users/:id\<close> is.
\<close>

theorem shouldMeasure_first_encounter_witness:
  "fst (shouldMeasure ''/health'' health_config fresh) = Inr False \<and>
   fst (shouldMeasure ''/users/:id'' health_config fresh) = Inr True \<and>
   shouldMeasureExcludedCache (snd (shouldMeasure ''/health'' health_config fresh)) ''/health''
     = Some True"
  using shouldMeasure_first_encounter [of fresh "''/health''" health_config]
    shouldMeasure_first_encounter [of fresh "''/users/:id''" health_config]
  by (simp add: fresh_def health_config_def)

text \<open>
  A predicate that raises does not return a truthy value, no list or pattern is
  configured, and yet \<open>shouldMeasure\<close> does not return true: the exception leaves it.
\<close>

theorem shouldMeasure_raising_counterexample:
  "\<not> spec_excluded (exclude raising_config) ''/users/:id'' (world fresh) \<and>
   fst (shouldMeasure ''/users/:id'' raising_config fresh) = Inl (Exception ''boom'')"
  by (simp add: raising_config_def raising_def fresh_def shouldMeasure_def
      cache_hasOwnProperty_def)

section \<open>Cached decisions\<close>

lemma shouldMeasure_keeps:
  assumes "shouldMeasureExcludedCache st p = Some x"
  shows "shouldMeasureExcludedCache (snd (shouldMeasure q cfg st)) p = Some x"
  using assms
  by (auto simp: shouldMeasure_def cache_hasOwnProperty_def cache_set_def
      split: option.splits sum.splits prod.splits bool.splits)

lemma shouldMeasure_unpoisoned:
  assumes "shouldMeasureExcludedCache st ''hasOwnProperty'' = None" and "q \<noteq> ''hasOwnProperty''"
  shows "shouldMeasureExcludedCache (snd (shouldMeasure q cfg st)) ''hasOwnProperty'' = None"
  using assms
  by (auto simp: shouldMeasure_def cache_hasOwnProperty_def cache_set_def
      split: option.splits sum.splits prod.splits bool.splits)

lemma shouldMeasure_stores:
  assumes "shouldMeasure p cfg st = (Inr b, st1)" and "truthy (exclude cfg)"
    and "shouldMeasureExcludedCache st ''hasOwnProperty'' = None" and "p \<noteq> ''__proto__''"
  shows "shouldMeasureExcludedCache st1 p = Some (\<not> b)"
  using assms
  by (auto simp: shouldMeasure_def cache_hasOwnProperty_def cache_set_def
      split: option.splits sum.splits prod.splits bool.splits)

lemma shouldMeasure_calls_keep:
  "shouldMeasureExcludedCache st p = Some x \<Longrightarrow>
   shouldMeasureExcludedCache st ''hasOwnProperty'' = None \<Longrightarrow>
   ''hasOwnProperty'' \<notin> set (map fst cs) \<Longrightarrow>
   shouldMeasureExcludedCache (shouldMeasure_calls cs st) p = Some x \<and>
   shouldMeasureExcludedCache (shouldMeasure_calls cs st) ''hasOwnProperty'' = None"
proof (induction cs arbitrary: st)
  case Nil
  then show ?case by simp
next
  case (Cons c cs)
  obtain q cfg where c: "c = (q, cfg)" by (cases c)
  from Cons.prems c have q: "q \<noteq> ''hasOwnProperty''" by auto
  have k: "shouldMeasureExcludedCache (snd (shouldMeasure q cfg st)) p = Some x"
    by (rule shouldMeasure_keeps[OF Cons.prems(1)])
  have u: "shouldMeasureExcludedCache (snd (shouldMeasure q cfg st)) ''hasOwnProperty'' = None"
    by (rule shouldMeasure_unpoisoned[OF Cons.prems(2) q])
  from Cons.prems(3) have "''hasOwnProperty'' \<notin> set (map fst cs)" by simp
  from Cons.IH[OF k u this] c show ?case by simp
qed

text \<open>
  C6, as it holds of the code.  Let a call of \<open>shouldMeasure\<close> for a path \<open>p\<close> return an answer, on a
  cache with no entry under \<open>hasOwnProperty\<close>, where \<open>p\<close> is neither \<open>__proto__\<close> nor
  \<open>hasOwnProperty\<close>.  Let any calls follow, from any closures, for any paths other than
  \<open>hasOwnProperty\<close>, with no construction of a middleware in between.  Then the next
  call for \<open>p\<close> returns the answer of the first call and leaves the whole state, cache
  and world, as it found it: neither the pattern nor the predicate is run again,
  whatever they would answer now.
\<close>

theorem shouldMeasure_cached_answer:
  assumes "shouldMeasure p cfg st = (Inr b, st1)"
    and "shouldMeasureExcludedCache st ''hasOwnProperty'' = None"
    and "p \<noteq> ''__proto__''"
    and "''hasOwnProperty'' \<notin> set (p # map fst cs)"
  shows "shouldMeasure p cfg (shouldMeasure_calls cs st1) = (Inr b, shouldMeasure_calls cs st1)"
proof (cases "truthy (exclude cfg)")
  case False
  with assms(1) show ?thesis by (simp add: shouldMeasure_no_exclude)
next
  case True
  have s: "shouldMeasureExcludedCache st1 p = Some (\<not> b)"
    by (rule shouldMeasure_stores[OF assms(1) True assms(2,3)])
  from assms(4) have p: "p \<noteq> ''hasOwnProperty''" and cs: "''hasOwnProperty'' \<notin> set (map fst cs)"
    by auto
  from shouldMeasure_unpoisoned[OF assms(2) p, of cfg] assms(1)
  have u: "shouldMeasureExcludedCache st1 ''hasOwnProperty'' = None" by simp
  from shouldMeasure_calls_keep[OF s u cs]
  have "shouldMeasureExcludedCache (shouldMeasure_calls cs st1) p = Some (\<not> b)"
    and "shouldMeasureExcludedCache (shouldMeasure_calls cs st1) ''hasOwnProperty'' = None"
    by auto
  from shouldMeasure_cached[OF True this(2,1)] show ?thesis by simp
qed


text \<open>
  The alternating predicate excludes \<open>/x\<close> on the first call; two calls later it
  would not, and the cached answer is returned all the same.
\<close>

theorem shouldMeasure_cached_answer_witness:
  "shouldMeasure ''/x'' alternating_config \<lparr> shouldMeasureExcludedCache = Map.empty, world = 0 \<rparr>
     = (Inr False, \<lparr> shouldMeasureExcludedCache = [''/x'' \<mapsto> True], world = 1 \<rparr>) \<and>
   shouldMeasure_calls [(''/y'', alternating_config), (''/z'', alternating_config)]
       \<lparr> shouldMeasureExcludedCache = [''/x'' \<mapsto> True], world = 1 \<rparr>
     = \<lparr> shouldMeasureExcludedCache = [''/x'' \<mapsto> True, ''/y'' \<mapsto> False, ''/z'' \<mapsto> True],
         world = 3 \<rparr> \<and>
   shouldMeasure ''/x'' alternating_config
       \<lparr> shouldMeasureExcludedCache = [''/x'' \<mapsto> True, ''/y'' \<mapsto> False, ''/z'' \<mapsto> True],
         world = 3 \<rparr>
     = (Inr False,
        \<lparr> shouldMeasureExcludedCache = [''/x'' \<mapsto> True, ''/y'' \<mapsto> False, ''/z'' \<mapsto> True],
          world = 3 \<rparr>) \<and>
   \<not> spec_excluded (exclude alternating_config) ''/x'' 3"
proof -
  have a: "shouldMeasure ''/x'' alternating_config
       \<lparr> shouldMeasureExcludedCache = Map.empty, world = 0 \<rparr>
     = (Inr False, \<lparr> shouldMeasureExcludedCache = [''/x'' \<mapsto> True], world = 1 \<rparr>)"
    by (simp add: shouldMeasure_def cache_hasOwnProperty_def cache_set_def
        alternating_config_def alternating_def)
  have b: "shouldMeasure_calls [(''/y'', alternating_config), (''/z'', alternating_config)]
       \<lparr> shouldMeasureExcludedCache = [''/x'' \<mapsto> True], world = 1 \<rparr>
     = \<lparr> shouldMeasureExcludedCache = [''/x'' \<mapsto> True, ''/y'' \<mapsto> False, ''/z'' \<mapsto> True],
         world = 3 \<rparr>"
    by (simp add: shouldMeasure_def cache_hasOwnProperty_def cache_set_def
        alternating_config_def alternating_def numeral_3_eq_3)
  have c: "\<not> spec_excluded (exclude alternating_config) ''/x'' 3"
    by (simp add: alternating_config_def alternating_def)
  from shouldMeasure_cached_answer
         [OF a, of "[(''/y'', alternating_config), (''/z'', alternating_config)]"]
    a b c
  show ?thesis by simp
qed

text \<open>
  One closure asks for \<open>/x\<close> twice, and a second middleware is constructed in between:
  the second call runs the predicate again and returns the other answer.
\<close>

theorem shouldMeasure_recomputed_counterexample:
  "shouldMeasure ''/x'' alternating_config \<lparr> shouldMeasureExcludedCache = Map.empty, world = 0 \<rparr>
     = (Inr False, \<lparr> shouldMeasureExcludedCache = [''/x'' \<mapsto> True], world = 1 \<rparr>) \<and>
   snd (preMiddleware (\<lambda>v. new_PathLimit 100) (Server True True) JUndefined
          \<lparr> shouldMeasureExcludedCache = [''/x'' \<mapsto> True], world = 1 \<rparr>)
     = \<lparr> shouldMeasureExcludedCache = Map.empty, world = 1 \<rparr> \<and>
   shouldMeasure ''/x'' alternating_config \<lparr> shouldMeasureExcludedCache = Map.empty, world = 1 \<rparr>
     = (Inr True, \<lparr> shouldMeasureExcludedCache = [''/x'' \<mapsto> False], world = 2 \<rparr>)"
  by (simp add: shouldMeasure_def cache_hasOwnProperty_def cache_set_def
      alternating_config_def alternating_def preMiddleware_snd)

section \<open>Exceptions\<close>

text \<open>
  C9, as it holds of the code.  On a cache with no entry under the key \<open>hasOwnProperty\<close>: if the path
  has a cached decision, or the configured predicate does not raise for it,
  \<open>shouldMeasure\<close> returns a boolean; no cache entry other than that of the path
  changes; and if the configured predicate raises for a path with no cached decision,
  \<open>shouldMeasure\<close> raises the same exception and caches nothing.
\<close>

theorem shouldMeasure_returns_unless_predicate_raises:
  assumes "shouldMeasureExcludedCache st ''hasOwnProperty'' = None"
  shows "(shouldMeasureExcludedCache st p \<noteq> None \<or> \<not> predicate_raises (exclude cfg) p (world st)
            \<longrightarrow> (\<exists>b. fst (shouldMeasure p cfg st) = Inr b)) \<and>
         (\<forall>q. q \<noteq> p \<longrightarrow>
            shouldMeasureExcludedCache (snd (shouldMeasure p cfg st)) q
              = shouldMeasureExcludedCache st q) \<and>
         (\<forall>f e. exclude cfg = JFunction f \<and> fst (f p (world st)) = Inl e \<and>
                 shouldMeasureExcludedCache st p = None \<longrightarrow>
            shouldMeasure p cfg st = (Inl e, st\<lparr>world := snd (f p (world st))\<rparr>))"
proof (intro conjI impI allI)
  assume h: "shouldMeasureExcludedCache st p \<noteq> None \<or>
             \<not> predicate_raises (exclude cfg) p (world st)"
  show "\<exists>b. fst (shouldMeasure p cfg st) = Inr b"
    by (rule shouldMeasure_returns[OF assms h])
next
  fix q assume "q \<noteq> p"
  then show "shouldMeasureExcludedCache (snd (shouldMeasure p cfg st)) q
              = shouldMeasureExcludedCache st q"
    by (auto simp: shouldMeasure_def cache_hasOwnProperty_def cache_set_def
        split: option.splits sum.splits prod.splits bool.splits)
next
  fix f e
  assume a: "exclude cfg = JFunction f \<and> fst (f p (world st)) = Inl e \<and>
             shouldMeasureExcludedCache st p = None"
  then have t: "truthy (exclude cfg)" by simp
  from a have n: "shouldMeasureExcludedCache st p = None" by simp
  from a compute_excluded_raises[of f p "world st" e]
  have "compute_excluded (exclude cfg) p (world st) = (Inl e, snd (f p (world st)))"
    by metis
  then show "shouldMeasure p cfg st = (Inl e, st\<lparr>world := snd (f p (world st))\<rparr>)"
    by (simp add: shouldMeasure_first[OF t assms n])
qed

theorem shouldMeasure_returns_unless_predicate_raises_witness:
  "fst (shouldMeasure ''/health'' health_config fresh) = Inr False \<and>
   fst (shouldMeasure ''/users/:id'' raising_config
          \<lparr> shouldMeasureExcludedCache = [''/users/:id'' \<mapsto> False], world = () \<rparr>) = Inr True \<and>
   shouldMeasure ''/health'' raising_config fresh = (Inl (Exception ''boom''), fresh)"
proof -
  have a: "fst (shouldMeasure ''/health'' health_config fresh) = Inr False"
    by (simp add: shouldMeasure_def cache_hasOwnProperty_def health_config_def fresh_def)
  have b: "fst (shouldMeasure ''/users/:id'' raising_config
          \<lparr> shouldMeasureExcludedCache = [''/users/:id'' \<mapsto> False], world = () \<rparr>) = Inr True"
    by (simp add: shouldMeasure_def cache_hasOwnProperty_def raising_config_def)
  from shouldMeasure_returns_unless_predicate_raises
         [of fresh "''/health''" raising_config]
  have c: "shouldMeasure ''/health'' raising_config fresh = (Inl (Exception ''boom''), fresh)"
    by (simp add: fresh_def raising_config_def raising_def)
  from a b c show ?thesis by simp
qed

text \<open>
  The options \<open>{exclude: raising}\<close> pass validation, and \<open>shouldMeasure\<close> raises.
\<close>

theorem shouldMeasure_raises_counterexample:
  "checkConfig (JObject [(''exclude'', JFunction raising)]) = Inr raising_config \<and>
   fst (shouldMeasure ''/health'' raising_config fresh) = Inl (Exception ''boom'')"
  by (simp add: checkConfig_def assign_def assigned_def defaultConfig_def raising_config_def
      raising_def fresh_def shouldMeasure_def cache_hasOwnProperty_def)

section \<open>Validation of the options\<close>

lemma route_check: "(\<not> is_false v \<and> (typeof v \<noteq> ''string'' \<or> \<not> truthy v)) \<longleftrightarrow> \<not> route_valid v"
  by (cases v) auto

lemma exclude_check:
  "(truthy (normalize_exclude v) \<and> \<not> isArray (normalize_exclude v) \<and>
    \<not> instanceofRegExp (normalize_exclude v) \<and> \<not> typeof (normalize_exclude v) = ''function'')
   \<longleftrightarrow> \<not> (\<not> truthy v \<or> exclude_shape v)"
  by (cases v) auto

lemma delay_check: "\<not> is_NaN v \<Longrightarrow> bad_delay v \<longleftrightarrow> \<not> delay_valid v"
proof (cases v)
  case (JNum n)
  assume "\<not> is_NaN v"
  with JNum show ?thesis by (cases n) auto
qed auto

lemma checkConfig_not_object:
  "typeof uc \<noteq> ''object'' \<and> \<not> is_undefined uc \<Longrightarrow>
   checkConfig uc = Inl (TypeError ''Invalid second argument for restify-prom-bundle.middleware()'')"
  by (simp add: checkConfig_def)

lemma checkConfig_object:
  assumes "typeof uc = ''object'' \<or> is_undefined uc"
  shows "checkConfig uc =
     (if \<not> route_valid (route (assign defaultConfig uc)) then
        Inl (TypeError ''`route` option for restify-prom-bundle.middleware() must be a non empty string or false'')
      else if \<not> (\<not> truthy (exclude (assign defaultConfig uc))
                   \<or> exclude_shape (exclude (assign defaultConfig uc))) then
        Inl (TypeError ''`exclude` option for restify-prom-bundle.middleware() must be string | string[] | RegExp | Function'')
      else if \<not> isArray (promBlacklist (assign defaultConfig uc)) then
        Inl (TypeError ''`promBlacklist` option for restify-prom-bundle.middleware() must be an array'')
      else if bad_delay (promDefaultDelay (assign defaultConfig uc)) then
        Inl (TypeError ''`promDefaultDelay` option for restify-prom-bundle.middleware() must be number >= 1000'')
      else Inr ((assign defaultConfig uc)
                  \<lparr>exclude := normalize_exclude (exclude (assign defaultConfig uc))\<rparr>))"
proof -
  from assms have n: "\<not> (typeof uc \<noteq> ''object'' \<and> \<not> is_undefined uc)" by auto
  show ?thesis
    unfolding checkConfig_def Let_def if_not_P[OF n]
    using route_check[of "route (assign defaultConfig uc)"]
      exclude_check[of "exclude (assign defaultConfig uc)"]
    by simp
qed

lemma middleware_returns:
  assumes "resolved_path req = Inr p" and "fst (shouldMeasure p (c_config inst) st) = Inr b"
  shows "\<exists>out. fst (middleware inst req st) = Inr out"
  using assms
  by (cases "shouldMeasure p (c_config inst) st"; cases b)
     (auto simp: middleware_def Let_def split: prod.splits)


text \<open>
  C8, as it holds of the code.  \<open>checkConfig\<close> raises a TypeError when the options are neither an
  object nor \<open>undefined\<close>.  Otherwise, on the options with the defaults filled in (and a
  delay other than NaN), it raises a TypeError exactly when \<open>route\<close> is neither a
  non-empty string nor \<open>false\<close>, or \<open>exclude\<close> is truthy and not a string, an array, a
  pattern or a function (a falsy \<open>exclude\<close> counts as absent), or \<open>promBlacklist\<close> is
  not an array, or \<open>promDefaultDelay\<close> is not a number that is at least 1000.  The
  configuration it returns is the options with a string \<open>exclude\<close> made a one-element
  array, so its \<open>exclude\<close> is falsy, an array, a pattern or a function.  An error of
  \<open>checkConfig\<close> is raised by \<open>preMiddleware\<close> itself, which then returns no handler.
  At request time, a handler with a configuration that passed returns normally when
  the route has a template, the cache has no entry under \<open>hasOwnProperty\<close> and the
  configured predicate does not raise for the resolved path.
\<close>

theorem checkConfig_validation:
  "(typeof uc \<noteq> ''object'' \<and> \<not> is_undefined uc \<longrightarrow>
      (\<exists>msg. checkConfig uc = Inl (TypeError msg))) \<and>
   ((typeof uc = ''object'' \<or> is_undefined uc) \<and>
    \<not> is_NaN (promDefaultDelay (assign defaultConfig uc)) \<longrightarrow>
      ((\<exists>msg. checkConfig uc = Inl (TypeError msg)) \<longleftrightarrow>
       \<not> (route_valid (route (assign defaultConfig uc)) \<and>
          (\<not> truthy (exclude (assign defaultConfig uc))
             \<or> exclude_shape (exclude (assign defaultConfig uc))) \<and>
          isArray (promBlacklist (assign defaultConfig uc)) \<and>
          delay_valid (promDefaultDelay (assign defaultConfig uc))))) \<and>
   (\<forall>cfg. checkConfig uc = Inr cfg \<longrightarrow>
      cfg = (assign defaultConfig uc)
              \<lparr>exclude := normalize_exclude (exclude (assign defaultConfig uc))\<rparr> \<and>
      (\<not> truthy (exclude cfg) \<or> isArray (exclude cfg) \<or> instanceofRegExp (exclude cfg)
         \<or> typeof (exclude cfg) = ''function'')) \<and>
   (\<forall>e. checkConfig uc = Inl e \<longrightarrow>
      fst (preMiddleware newPathLimit (Server True True) uc st0) = Inl e) \<and>
   (\<forall>cfg p. checkConfig uc = Inr cfg \<and> c_config inst = cfg \<and>
            shouldMeasureExcludedCache st ''hasOwnProperty'' = None \<and>
            resolved_path req = Inr p \<and>
            \<not> predicate_raises (exclude cfg) p (world st) \<longrightarrow>
      (\<exists>out. fst (middleware inst req st) = Inr out))"
proof (intro conjI impI allI)
  assume "typeof uc \<noteq> ''object'' \<and> \<not> is_undefined uc"
  then show "\<exists>msg. checkConfig uc = Inl (TypeError msg)"
    by (simp add: checkConfig_not_object)
next
  assume a: "(typeof uc = ''object'' \<or> is_undefined uc) \<and>
             \<not> is_NaN (promDefaultDelay (assign defaultConfig uc))"
  then have o: "typeof uc = ''object'' \<or> is_undefined uc"
    and d: "bad_delay (promDefaultDelay (assign defaultConfig uc))
            \<longleftrightarrow> \<not> delay_valid (promDefaultDelay (assign defaultConfig uc))"
    by (simp_all add: delay_check)
  show "(\<exists>msg. checkConfig uc = Inl (TypeError msg)) \<longleftrightarrow>
       \<not> (route_valid (route (assign defaultConfig uc)) \<and>
          (\<not> truthy (exclude (assign defaultConfig uc))
             \<or> exclude_shape (exclude (assign defaultConfig uc))) \<and>
          isArray (promBlacklist (assign defaultConfig uc)) \<and>
          delay_valid (promDefaultDelay (assign defaultConfig uc)))"
    unfolding checkConfig_object[OF o] d by auto
next
  fix cfg assume r: "checkConfig uc = Inr cfg"
  then have o: "typeof uc = ''object'' \<or> is_undefined uc"
    using checkConfig_not_object[of uc] by auto
  from r show c: "cfg = (assign defaultConfig uc)
              \<lparr>exclude := normalize_exclude (exclude (assign defaultConfig uc))\<rparr>"
    unfolding checkConfig_object[OF o] by (auto split: if_splits)
  from r have "\<not> truthy (exclude (assign defaultConfig uc))
                 \<or> exclude_shape (exclude (assign defaultConfig uc))"
    unfolding checkConfig_object[OF o] by (auto split: if_splits)
  with c show "\<not> truthy (exclude cfg) \<or> isArray (exclude cfg) \<or> instanceofRegExp (exclude cfg)
         \<or> typeof (exclude cfg) = ''function''"
    by (cases "exclude (assign defaultConfig uc)") auto
next
  fix e assume "checkConfig uc = Inl e"
  then show "fst (preMiddleware newPathLimit (Server True True) uc st0) = Inl e"
    by (simp add: preMiddleware_def)
next
  fix cfg p
  assume a: "checkConfig uc = Inr cfg \<and> c_config inst = cfg \<and>
            shouldMeasureExcludedCache st ''hasOwnProperty'' = None \<and>
            resolved_path req = Inr p \<and>
            \<not> predicate_raises (exclude cfg) p (world st)"
  then have u: "shouldMeasureExcludedCache st ''hasOwnProperty'' = None"
    and n: "\<not> predicate_raises (exclude (c_config inst)) p (world st)"
    and r: "resolved_path req = Inr p" by auto
  from n have "\<exists>b. fst (shouldMeasure p (c_config inst) st) = Inr b"
    by (intro shouldMeasure_returns[OF u]) simp
  then obtain b where "fst (shouldMeasure p (c_config inst) st) = Inr b" ..
  from middleware_returns[OF r this] show "\<exists>out. fst (middleware inst req st) = Inr out" .
qed

lemma checkConfig_valid_options:
  "checkConfig valid_options =
     Inr \<lparr> route = JBool False, exclude = JArray [JStr ''/health''], promBlacklist = JArray [],
           promDefaultDelay = JNum (Fin 5000), maxPathsToCount = JNum (Fin 100) \<rparr>"
  by (simp add: checkConfig_def assign_def assigned_def defaultConfig_def valid_options_def)

lemma checkConfig_short_delay_options:
  "checkConfig short_delay_options =
     Inl (TypeError ''`promDefaultDelay` option for restify-prom-bundle.middleware() must be number >= 1000'')"
  by (simp add: checkConfig_def assign_def assigned_def defaultConfig_def short_delay_options_def)

theorem checkConfig_validation_witness:
  "typeof short_delay_options = ''object'' \<and>
   \<not> is_NaN (promDefaultDelay (assign defaultConfig short_delay_options)) \<and>
   checkConfig short_delay_options =
     Inl (TypeError ''`promDefaultDelay` option for restify-prom-bundle.middleware() must be number >= 1000'') \<and>
   \<not> delay_valid (promDefaultDelay (assign defaultConfig short_delay_options)) \<and>
   checkConfig valid_options =
     Inr \<lparr> route = JBool False, exclude = JArray [JStr ''/health''], promBlacklist = JArray [],
           promDefaultDelay = JNum (Fin 5000), maxPathsToCount = JNum (Fin 100) \<rparr> \<and>
   route_valid (route (assign defaultConfig valid_options)) \<and>
   exclude_shape (exclude (assign defaultConfig valid_options)) \<and>
   delay_valid (promDefaultDelay (assign defaultConfig valid_options))"
proof -
  have t: "typeof short_delay_options = ''object''" "typeof valid_options = ''object''"
    by (simp_all add: short_delay_options_def valid_options_def)
  have n: "\<not> is_NaN (promDefaultDelay (assign defaultConfig short_delay_options))"
    "\<not> is_NaN (promDefaultDelay (assign defaultConfig valid_options))"
    by (simp_all add: assign_def assigned_def short_delay_options_def valid_options_def)
  have r: "route_valid (route (assign defaultConfig short_delay_options))"
    "\<not> truthy (exclude (assign defaultConfig short_delay_options))"
    "isArray (promBlacklist (assign defaultConfig short_delay_options))"
    "truthy (exclude (assign defaultConfig valid_options))"
    by (simp_all add: assign_def assigned_def defaultConfig_def short_delay_options_def
        valid_options_def)
  from checkConfig_validation [of short_delay_options] checkConfig_short_delay_options t n r
  have a: "\<not> delay_valid (promDefaultDelay (assign defaultConfig short_delay_options))"
    by simp
  from checkConfig_validation [of valid_options] checkConfig_valid_options t n r
  have b: "route_valid (route (assign defaultConfig valid_options)) \<and>
     exclude_shape (exclude (assign defaultConfig valid_options)) \<and>
     delay_valid (promDefaultDelay (assign defaultConfig valid_options))"
    by simp
  from a b t n checkConfig_short_delay_options checkConfig_valid_options show ?thesis by simp
qed

text \<open>
  The options \<open>{exclude: false}\<close> are accepted although \<open>exclude\<close> is present and is
  no array, pattern or function; and the options \<open>{exclude: raising}\<close> are valid, the
  middleware is constructed, and its handler raises on the first request.
\<close>

theorem checkConfig_validation_counterexample:
  "checkConfig (JObject [(''exclude'', JBool False)])
     = Inr ((defaultConfig :: unit config)\<lparr>exclude := JBool False\<rparr>) \<and>
   fst (preMiddleware (\<lambda>v. new_PathLimit 100) (Server True True)
          (JObject [(''exclude'', JFunction raising)]) fresh) = Inr raising_closure \<and>
   fst (middleware raising_closure GET_users_7 fresh) = Inl (Exception ''boom'')"
  by (simp add: checkConfig_def assign_def assigned_def defaultConfig_def preMiddleware_def
      raising_closure_def raising_config_def raising_def middleware_def GET_users_7_def
      resolved_path_def shouldMeasure_def cache_hasOwnProperty_def fresh_def)

section \<open>The duration timer\<close>

lemma predicate_raises_truthy: "predicate_raises ex p w \<Longrightarrow> truthy ex"
  by (cases ex) auto

lemma shouldMeasure_first_raises:
  assumes "truthy (exclude cfg)"
    and "shouldMeasureExcludedCache st ''hasOwnProperty'' = None"
    and "shouldMeasureExcludedCache st p = None"
    and "predicate_raises (exclude cfg) p (world st)"
  shows "\<exists>e. fst (shouldMeasure p cfg st) = Inl e"
proof -
  from assms(4) obtain f where f: "exclude cfg = JFunction f" by (cases "exclude cfg") auto
  with assms(4) obtain e where e: "fst (f p (world st)) = Inl e"
    by (cases "fst (f p (world st))") auto
  from compute_excluded_raises[of f p "world st" e] e f
  show ?thesis by (simp add: shouldMeasure_first[OF assms(1-3)])
qed

lemma shouldMeasure_True_iff:
  assumes "shouldMeasureExcludedCache st ''hasOwnProperty'' = None"
  shows "fst (shouldMeasure p cfg st) = Inr True \<longleftrightarrow>
         (truthy (exclude cfg) \<and> shouldMeasureExcludedCache st p = Some False) \<or>
         ((\<not> truthy (exclude cfg) \<or> shouldMeasureExcludedCache st p = None) \<and>
          \<not> spec_excluded (exclude cfg) p (world st) \<and>
          \<not> predicate_raises (exclude cfg) p (world st))"
proof (cases "truthy (exclude cfg)")
  case False
  with spec_excluded_truthy[of "exclude cfg" p "world st"]
    predicate_raises_truthy[of "exclude cfg" p "world st"]
  show ?thesis by (auto simp: shouldMeasure_no_exclude)
next
  case True
  show ?thesis
  proof (cases "shouldMeasureExcludedCache st p")
    case (Some x)
    with True shouldMeasure_cached[OF True assms Some] show ?thesis by auto
  next
    case None
    show ?thesis
    proof (cases "predicate_raises (exclude cfg) p (world st)")
      case raises: True
      from shouldMeasure_first_raises[OF True assms None raises] raises None
      show ?thesis by auto
    next
      case False
      from shouldMeasure_first[OF True assms None] compute_excluded_spec[OF False]
      have "fst (shouldMeasure p cfg st) = Inr (\<not> spec_excluded (exclude cfg) p (world st))"
        by (cases "compute_excluded (exclude cfg) p (world st)") auto
      with True None False show ?thesis by auto
    qed
  qed
qed

text \<open>
  C4, as it holds of the code.  For a closure whose metrics are those of \<open>initMetrics\<close>,
  on a cache with no entry under the key \<open>hasOwnProperty\<close>: the handler registers the
  callback that ends a histogram timer with labels \<open>p\<close>, \<open>m\<close> exactly when route
  resolution succeeded, \<open>p\<close> is the resolved path, \<open>m\<close> is the request method, and
  either an exclusion setting is configured and the shared cache holds the decision
  \<open>not excluded\<close> for \<open>p\<close>, or there is no such decision to read (no setting, or no
  cache entry for \<open>p\<close>), \<open>p\<close> is not excluded by the list, pattern or predicate of the
  closure, and the predicate does not raise for \<open>p\<close>.  When route resolution failed no
  timer callback is registered, whatever the configuration, the cache and the limiter
  hold.
\<close>

theorem timer_iff_not_excluded:
  assumes "c_metrics inst = initMetrics (c_config inst)"
  shows "(shouldMeasureExcludedCache st ''hasOwnProperty'' = None \<longrightarrow>
            ((\<exists>out st'. middleware inst req st = (Inr out, st') \<and>
                EndTimer p m \<in> set (registered out))
             \<longleftrightarrow> (\<not> routeFindError (req_found req) \<and> resolved_path req = Inr p \<and>
                  m = req_method req \<and>
                  ((truthy (exclude (c_config inst)) \<and>
                    shouldMeasureExcludedCache st p = Some False) \<or>
                   ((\<not> truthy (exclude (c_config inst)) \<or>
                     shouldMeasureExcludedCache st p = None) \<and>
                    \<not> spec_excluded (exclude (c_config inst)) p (world st) \<and>
                    \<not> predicate_raises (exclude (c_config inst)) p (world st)))))) \<and>
         (routeFindError (req_found req) \<longrightarrow>
            (\<forall>out st'. middleware inst req st = (Inr out, st') \<longrightarrow>
               EndTimer p m \<notin> set (registered out)))"
proof (intro conjI impI)
  assume u: "shouldMeasureExcludedCache st ''hasOwnProperty'' = None"
  show "(\<exists>out st'. middleware inst req st = (Inr out, st') \<and>
                EndTimer p m \<in> set (registered out))
             \<longleftrightarrow> (\<not> routeFindError (req_found req) \<and> resolved_path req = Inr p \<and>
                  m = req_method req \<and>
                  ((truthy (exclude (c_config inst)) \<and>
                    shouldMeasureExcludedCache st p = Some False) \<or>
                   ((\<not> truthy (exclude (c_config inst)) \<or>
                     shouldMeasureExcludedCache st p = None) \<and>
                    \<not> spec_excluded (exclude (c_config inst)) p (world st) \<and>
                    \<not> predicate_raises (exclude (c_config inst)) p (world st))))"
    unfolding timer_iff_shouldMeasure[OF assms] shouldMeasure_True_iff[OF u] by auto
next
  assume r: "routeFindError (req_found req)"
  from timer_iff_shouldMeasure[OF assms, of req st p m] r
  show "\<forall>out st'. middleware inst req st = (Inr out, st') \<longrightarrow>
               EndTimer p m \<notin> set (registered out)"
    by blast
qed

text \<open>
  Under the default configuration the resolved request \<open>GET /users/7\<close> is timed; the
  closure that excludes \<open>/health\<close> does not time \<open>GET /health\<close> on a fresh cache.
\<close>

theorem timer_iff_not_excluded_witness:
  "c_metrics default_closure = initMetrics (c_config default_closure) \<and>
   shouldMeasureExcludedCache fresh ''hasOwnProperty'' = None \<and>
   middleware default_closure GET_users_7 fresh =
     (Inr \<lparr> registered = [EndTimer ''/users/:id'' ''GET''], limiter = new_PathLimit 100,
            next_called = True \<rparr>, fresh) \<and>
   resolved_path GET_users_7 = Inr ''/users/:id'' \<and>
   \<not> spec_excluded (exclude (c_config default_closure)) ''/users/:id'' (world fresh) \<and>
   c_metrics health_closure = initMetrics (c_config health_closure) \<and>
   resolved_path GET_health = Inr ''/health'' \<and>
   spec_excluded (exclude (c_config health_closure)) ''/health'' (world fresh) \<and>
   (\<nexists>out st'. middleware health_closure GET_health fresh = (Inr out, st') \<and>
      EndTimer ''/health'' ''GET'' \<in> set (registered out))"
proof -
  have m: "c_metrics default_closure = initMetrics (c_config default_closure)"
    "c_metrics health_closure = initMetrics (c_config health_closure)"
    by (simp_all add: default_closure_def health_closure_def)
  have u: "shouldMeasureExcludedCache fresh ''hasOwnProperty'' = None"
    by (simp add: fresh_def)
  have t: "\<exists>out st'. middleware default_closure GET_users_7 fresh = (Inr out, st') \<and>
          EndTimer ''/users/:id'' ''GET'' \<in> set (registered out)"
    using middleware_GET_users_7 by simp
  have h: "resolved_path GET_health = Inr ''/health''"
    "spec_excluded (exclude (c_config health_closure)) ''/health'' (world fresh)"
    "truthy (exclude (c_config health_closure))"
    "shouldMeasureExcludedCache fresh ''/health'' = None"
    by (simp_all add: GET_health_def resolved_path_def health_closure_def health_config_def
        fresh_def)
  from timer_iff_not_excluded [OF m(1), of fresh GET_users_7 "''/users/:id''" "''GET''"] u t
  have a: "resolved_path GET_users_7 = Inr ''/users/:id'' \<and>
     \<not> spec_excluded (exclude (c_config default_closure)) ''/users/:id'' (world fresh)"
    by (auto simp: default_closure_def defaultConfig_def)
  from timer_iff_not_excluded [OF m(2), of fresh GET_health "''/health''" "''GET''"] u h
  have b: "\<nexists>out st'. middleware health_closure GET_health fresh = (Inr out, st') \<and>
      EndTimer ''/health'' ''GET'' \<in> set (registered out)"
    by simp
  from a b m u h middleware_GET_users_7 show ?thesis by simp
qed

text \<open>
  Two resolved requests.  The first path is excluded by nothing, and no timer is
  started: the configured predicate raises, and the handler with it.  The second path
  is on the closure's literal list, and the timer is started: the shared cache holds
  for it the decision of another closure, which handled the same request before.
\<close>

theorem timer_not_excluded_counterexample:
  "\<not> routeFindError (req_found GET_users_7) \<and>
   resolved_path GET_users_7 = Inr ''/users/:id'' \<and>
   \<not> spec_excluded (exclude (c_config raising_closure)) ''/users/:id'' (world fresh) \<and>
   middleware raising_closure GET_users_7 fresh = (Inl (Exception ''boom''), fresh) \<and>
   snd (middleware admin_closure GET_health fresh) = stale \<and>
   resolved_path GET_health = Inr ''/health'' \<and>
   spec_excluded (exclude (c_config health_closure)) ''/health'' (world stale) \<and>
   middleware health_closure GET_health stale =
     (Inr \<lparr> registered = [EndTimer ''/health'' ''GET''], limiter = new_PathLimit 100,
            next_called = True \<rparr>, stale)"
  by (simp add: GET_users_7_def GET_health_def resolved_path_def raising_closure_def
      raising_config_def raising_def health_closure_def health_config_def middleware_def
      admin_closure_def defaultConfig_def cache_set_def
      shouldMeasure_def cache_hasOwnProperty_def fresh_def stale_def
      initMetrics_requestCounte initMetrics_requestHistogram)

end
